theory Spec2Isabelle
  imports Complex_Main
begin

section \<open>Dates\<close>

text \<open>
  A JavaScript \<^verbatim>\<open>Date\<close> is an instant. The routes only ever read dates through the
  server's local calendar (\<^verbatim>\<open>new Date(y, m, d, ...)\<close>, \<^verbatim>\<open>getFullYear()\<close>,
  \<^verbatim>\<open>toLocaleString('default', {month: 'long'})\<close>, \<^verbatim>\<open>setHours\<close>) and compare them
  (\<^verbatim>\<open>$gte\<close>, \<^verbatim>\<open>$lte\<close>). An instant is therefore represented by its local calendar
  reading: year, month index (0 = January), day of the month and milliseconds since local
  midnight. Under a server time zone with a fixed offset the order of instants is the
  lexicographic order of these readings. The default locale is taken to be English, as the
  month names of the Budget schema are.
\<close>

record jsdate =
  getFullYear :: int
  getMonth :: nat
  getDate :: nat
  msOfDay :: nat

definition isLeapYear :: "int \<Rightarrow> bool" where
  "isLeapYear y = (y mod 4 = 0 \<and> (y mod 100 \<noteq> 0 \<or> y mod 400 = 0))"

definition daysInMonth :: "int \<Rightarrow> nat \<Rightarrow> nat" where
  "daysInMonth y m =
     (if m = 1 then (if isLeapYear y then 29 else 28)
      else if m = 3 \<or> m = 5 \<or> m = 8 \<or> m = 10 then 30 else 31)"

definition prevMonth :: "int \<times> nat \<Rightarrow> int \<times> nat" where
  "prevMonth ym = (if snd ym = 0 then (fst ym - 1, 11) else (fst ym, snd ym - 1))"

definition nextMonth :: "int \<times> nat \<Rightarrow> int \<times> nat" where
  "nextMonth ym = (if snd ym = 11 then (fst ym + 1, 0) else (fst ym, snd ym + 1))"

text \<open>Day numbers below 1 roll back into earlier months, day numbers past the end of the
  month roll forward, as the \<^verbatim>\<open>Date\<close> constructor does.\<close>

function rollBack :: "int \<Rightarrow> nat \<Rightarrow> int \<Rightarrow> int \<times> nat \<times> nat" where
  "rollBack y m d =
     (if 1 \<le> d then (y, m, nat d)
      else rollBack (fst (prevMonth (y, m))) (snd (prevMonth (y, m)))
             (d + int (daysInMonth (fst (prevMonth (y, m))) (snd (prevMonth (y, m))))))"
  by pat_completeness auto
termination
proof (relation "measure (\<lambda>(y, m, d). nat (1 - d))")
  show "wf (measure (\<lambda>(y, m, d). nat (1 - d)))" by simp
next
  fix y :: int and m :: nat and d :: int
  assume "\<not> 1 \<le> d"
  moreover have "28 \<le> daysInMonth (fst (prevMonth (y, m))) (snd (prevMonth (y, m)))"
    by (simp add: daysInMonth_def)
  ultimately show "((fst (prevMonth (y, m)), snd (prevMonth (y, m)),
      d + int (daysInMonth (fst (prevMonth (y, m))) (snd (prevMonth (y, m))))), y, m, d)
    \<in> measure (\<lambda>(y, m, d). nat (1 - d))"
    by simp
qed

function rollForward :: "int \<Rightarrow> nat \<Rightarrow> int \<Rightarrow> int \<times> nat \<times> nat" where
  "rollForward y m d =
     (if d \<le> int (daysInMonth y m) then (y, m, nat d)
      else rollForward (fst (nextMonth (y, m))) (snd (nextMonth (y, m)))
             (d - int (daysInMonth y m)))"
  by pat_completeness auto
termination
proof (relation "measure (\<lambda>(y, m, d). nat d)")
  show "wf (measure (\<lambda>(y, m, d). nat d))" by simp
next
  fix y :: int and m :: nat and d :: int
  assume "\<not> d \<le> int (daysInMonth y m)"
  moreover have "28 \<le> daysInMonth y m"
    by (simp add: daysInMonth_def)
  ultimately show "((fst (nextMonth (y, m)), snd (nextMonth (y, m)), d - int (daysInMonth y m)),
      y, m, d) \<in> measure (\<lambda>(y, m, d). nat d)"
    by simp
qed

declare rollBack.simps [simp del] rollForward.simps [simp del]

definition msPerDay :: nat where
  "msPerDay = 86400000"

text \<open>\<^verbatim>\<open>new Date(year, monthIndex, day, hours, minutes, seconds)\<close>: the month index is
  reduced into 0..11 with the year carrying (floor division, so negative indexes reach
  back), then the day number is normalised.\<close>

definition Date_new :: "int \<Rightarrow> int \<Rightarrow> int \<Rightarrow> nat \<Rightarrow> nat \<Rightarrow> nat \<Rightarrow> jsdate" where
  "Date_new y monthIndex d h mi s =
     (let t = ((h * 60 + mi) * 60 + s) * 1000;
          d0 = d + int (t div msPerDay);
          y0 = y + monthIndex div 12;
          m0 = nat (monthIndex mod 12);
          r = (if d0 < 1 then rollBack y0 m0 d0 else rollForward y0 m0 d0)
      in \<lparr>getFullYear = fst r, getMonth = fst (snd r), getDate = snd (snd r),
          msOfDay = t mod msPerDay\<rparr>)"

text \<open>\<^verbatim>\<open>date.setHours(h, mi, s, ms)\<close> for a time of day within the day.\<close>

definition setHours :: "jsdate \<Rightarrow> nat \<Rightarrow> nat \<Rightarrow> nat \<Rightarrow> nat \<Rightarrow> jsdate" where
  "setHours dt h mi s ms = dt\<lparr>msOfDay := ((h * 60 + mi) * 60 + s) * 1000 + ms\<rparr>"

text \<open>\<^verbatim>\<open>date.setDate(n)\<close> sets the day of the month in place, with the same normalisation
  of the day number; the time of day stays.\<close>

definition setDate :: "jsdate \<Rightarrow> int \<Rightarrow> jsdate" where
  "setDate dt n =
     (let r = (if n < 1 then rollBack (getFullYear dt) (getMonth dt) n
               else rollForward (getFullYear dt) (getMonth dt) n)
      in dt\<lparr>getFullYear := fst r, getMonth := fst (snd r), getDate := snd (snd r)\<rparr>)"

text \<open>\<^verbatim>\<open>date.getDay()\<close>: the day of the week, 0 for Sunday. The number of days since
  1 January 1970, a Thursday, is counted in the Gregorian calendar, with the years
  beginning in March.\<close>

definition days_from_civil :: "int \<Rightarrow> nat \<Rightarrow> nat \<Rightarrow> int" where
  "days_from_civil y m d =
     (let y' = (if m < 2 then y - 1 else y);
          era = y' div 400;
          yoe = y' - era * 400;
          mp = (if m < 2 then int m + 10 else int m - 2);
          doy = (153 * mp + 2) div 5 + int d - 1;
          doe = yoe * 365 + yoe div 4 - yoe div 100 + doy
      in era * 146097 + doe - 719468)"

definition getDay :: "jsdate \<Rightarrow> nat" where
  "getDay dt =
     nat ((days_from_civil (getFullYear dt) (getMonth dt) (getDate dt) + 4) mod 7)"

text \<open>The comparison of two instants (\<^verbatim>\<open>$lte\<close>; \<^verbatim>\<open>$gte\<close> is the same with the
  arguments exchanged).\<close>

definition date_le :: "jsdate \<Rightarrow> jsdate \<Rightarrow> bool" where
  "date_le a b =
     (getFullYear a < getFullYear b \<or>
      (getFullYear a = getFullYear b \<and>
       (getMonth a < getMonth b \<or>
        (getMonth a = getMonth b \<and>
         (getDate a < getDate b \<or>
          (getDate a = getDate b \<and> msOfDay a \<le> msOfDay b))))))"

definition months :: "string list" where
  "months = [''January'', ''February'', ''March'', ''April'', ''May'', ''June'',
     ''July'', ''August'', ''September'', ''October'', ''November'', ''December'']"

definition monthsShort :: "string list" where
  "monthsShort = [''Jan'', ''Feb'', ''Mar'', ''Apr'', ''May'', ''Jun'',
     ''Jul'', ''Aug'', ''Sep'', ''Oct'', ''Nov'', ''Dec'']"

text \<open>\<^verbatim>\<open>array.indexOf(x)\<close>: the first position of \<open>x\<close>, or -1.\<close>

fun indexOf :: "'a list \<Rightarrow> 'a \<Rightarrow> int" where
  "indexOf [] x = -1"
| "indexOf (y # ys) x =
     (if y = x then 0 else (let i = indexOf ys x in if i < 0 then -1 else i + 1))"

definition getMonthIndex :: "string \<Rightarrow> int" where
  "getMonthIndex monthName = indexOf months monthName"

text \<open>\<^verbatim>\<open>date.toLocaleString('default', {month: 'long'})\<close> and the same with
  \<^verbatim>\<open>'short'\<close>.\<close>

definition monthLong :: "jsdate \<Rightarrow> string" where
  "monthLong dt = months ! getMonth dt"

definition monthShort :: "jsdate \<Rightarrow> string" where
  "monthShort dt = monthsShort ! getMonth dt"

section \<open>Documents and collections\<close>

text \<open>
  Amounts are JavaScript numbers; they are modelled as exact rationals, the plain decimal
  addition of the specification. A collection is the list of its documents in storage
  order; a query for one document returns the first match. Document identifiers are
  compared for equality only.

  The session keeps the user's identifier as a string of 24 hexadecimal digits
  (\<^verbatim>\<open>requireAuth\<close> matches it against a regular expression), and \<^verbatim>\<open>req.userId\<close> is that
  string. The schemas store \<^verbatim>\<open>userId\<close> as an ObjectId. Mongoose casts the filter of a query
  (\<^verbatim>\<open>find\<close>, \<^verbatim>\<open>findOne\<close>, \<^verbatim>\<open>findOneAndUpdate\<close>, \<^verbatim>\<open>findOneAndDelete\<close>) and the fields of a
  new document to the types of the schema, so there the string stands for the ObjectId.
  It does not cast the stages of an aggregation pipeline: a \<^verbatim>\<open>$match\<close> compares the stored
  value with the value as the route wrote it, which is the string in the budget and
  expense routes and \<^verbatim>\<open>new mongoose.Types.ObjectId(req.userId)\<close> in the dashboard and reports
  routes. A string never equals an ObjectId.

  The Expense model (\<^verbatim>\<open>models/Expense.js\<close>) is not available. Its \<^verbatim>\<open>userId\<close> is taken to
  be an ObjectId, as in the Income, Budget and Category schemas and as the dashboard,
  reports and admin queries on the collection require; its validators are taken to accept
  what the validation of the routes accepts.
\<close>

datatype bson_id = ObjectId string | HexString string

text \<open>The schema option \<^verbatim>\<open>trim: true\<close> applies \<^verbatim>\<open>String.prototype.trim\<close> to a string when a
  document is built, when an update is cast and when the filter of a query is cast; the
  stages of an aggregation are not cast, so not trimmed. Of the white space of JavaScript
  the ASCII characters are modelled.\<close>

definition is_space :: "char \<Rightarrow> bool" where
  "is_space c =
     (c = CHR '' '' \<or> c = CHR 0x09 \<or> c = CHR 0x0A \<or> c = CHR 0x0B \<or> c = CHR 0x0C \<or>
      c = CHR 0x0D)"

definition trim :: "string \<Rightarrow> string" where
  "trim str = rev (dropWhile is_space (rev (dropWhile is_space str)))"

record expense =
  e_id :: string
  e_userId :: bson_id
  e_description :: string
  e_amount :: rat
  e_category :: string
  e_date :: jsdate

record income =
  i_id :: string
  i_userId :: bson_id
  i_description :: string
  i_amount :: rat
  i_category :: string
  i_date :: jsdate

record budget =
  b_id :: string
  b_userId :: bson_id
  b_category :: string
  b_budgetAmount :: rat
  b_spentAmount :: rat
  b_month :: string
  b_year :: int

record db =
  expenses :: "expense list"
  incomes :: "income list"
  budgets :: "budget list"

record stats_summary =
  st_totalExpenses :: rat
  st_count :: nat
  st_averageExpense :: rat

record month_row =
  mr_month :: string
  mr_income :: rat
  mr_expenses :: rat

record report =
  period_startDate :: jsdate
  period_endDate :: jsdate
  r_totalIncome :: rat
  r_totalExpenses :: rat
  r_netBalance :: rat
  r_incomeCount :: nat
  r_expenseCount :: nat
  r_totalTransactions :: nat
  r_monthlyData :: "(month_row \<times> rat) list"

datatype body =
    Message string
  | ValidationFailed "string list"
  | BudgetDoc budget
  | ExpenseDoc expense
  | IncomeDoc income
  | StatsDoc stats_summary "(string \<times> rat \<times> nat) list"
  | ReportDoc report

datatype response = Response (status: nat) (payload: body)

text \<open>The fields \<^verbatim>\<open>message\<close> and \<^verbatim>\<open>errors\<close> of a response body, as a caller reads them:
  \<^verbatim>\<open>handleValidationErrors\<close> sends \<^verbatim>\<open>{message: 'Validation failed', errors: [...]}\<close>, the
  other rejections send \<^verbatim>\<open>{message: ...}\<close> alone, and a document has neither field.\<close>

definition body_message :: "body \<Rightarrow> string option" where
  "body_message bd =
     (case bd of Message m \<Rightarrow> Some m | ValidationFailed errors \<Rightarrow> Some ''Validation failed''
      | _ \<Rightarrow> None)"

definition body_errors :: "body \<Rightarrow> string list option" where
  "body_errors bd = (case bd of ValidationFailed errors \<Rightarrow> Some errors | _ \<Rightarrow> None)"

section \<open>The bounded scan of the budget routes\<close>

text \<open>\<^verbatim>\<open>Expense.aggregate([{$match: ...}, {$group: {_id: null, total: {$sum: '$amount'}}}])\<close>
  yields no group when nothing matches and one group with the total otherwise;
  \<^verbatim>\<open>spentAmount[0]?.total || 0\<close> reads it.\<close>

definition group_total :: "rat list \<Rightarrow> rat list" where
  "group_total xs = (if xs = [] then [] else [sum_list xs])"

definition total_or_zero :: "rat list \<Rightarrow> rat" where
  "total_or_zero r = (case r of [] \<Rightarrow> 0 | t # _ \<Rightarrow> if t = 0 then 0 else t)"

definition scan_match :: "string \<Rightarrow> string \<Rightarrow> jsdate \<Rightarrow> jsdate \<Rightarrow> expense \<Rightarrow> bool" where
  "scan_match uid category startDate endDate e =
     (e_userId e = HexString uid \<and> e_category e = category \<and>
      date_le startDate (e_date e) \<and> date_le (e_date e) endDate)"

definition scan_startDate :: "int \<Rightarrow> string \<Rightarrow> jsdate" where
  "scan_startDate year month = Date_new year (getMonthIndex month) 1 0 0 0"

definition scan_endDate :: "int \<Rightarrow> string \<Rightarrow> jsdate" where
  "scan_endDate year month = Date_new year (getMonthIndex month + 1) 0 0 0 0"

definition scan_spent :: "string \<Rightarrow> string \<Rightarrow> string \<Rightarrow> int \<Rightarrow> expense list \<Rightarrow> rat" where
  "scan_spent uid category month year es =
     total_or_zero (group_total (map e_amount
       (filter (scan_match uid category (scan_startDate year month) (scan_endDate year month)) es)))"

text \<open>The validators of the Budget schema, run by \<^verbatim>\<open>save()\<close>.\<close>

definition budget_valid :: "budget \<Rightarrow> bool" where
  "budget_valid b =
     (b_category b \<noteq> [] \<and> 1 / 100 \<le> b_budgetAmount b \<and> 0 \<le> b_spentAmount b \<and>
      b_month b \<in> set months \<and> 2020 \<le> b_year b \<and> b_year b \<le> 2030)"

section \<open>Bulk refresh\<close>

text \<open>\<^verbatim>\<open>POST /refresh\<close>: every budget of the user, in turn, gets the rescanned total and is
  saved. A failing save throws: the loop stops there, the budgets saved before keep their
  new value, and the response is 500.\<close>

fun refresh_loop :: "string \<Rightarrow> expense list \<Rightarrow> budget list \<Rightarrow> bool \<times> budget list" where
  "refresh_loop uid es [] = (True, [])"
| "refresh_loop uid es (b # bs) =
     (if b_userId b = ObjectId uid then
        (let b' = b\<lparr>b_spentAmount := scan_spent uid (b_category b) (b_month b) (b_year b) es\<rparr>
         in if budget_valid b'
            then (let r = refresh_loop uid es bs in (fst r, b' # snd r))
            else (False, b # bs))
      else (let r = refresh_loop uid es bs in (fst r, b # snd r)))"

definition post_refresh :: "string \<Rightarrow> db \<Rightarrow> response \<times> db" where
  "post_refresh uid s =
     (let r = refresh_loop uid (expenses s) (budgets s)
      in (if fst r then Response 200 (Message ''Budget amounts refreshed successfully'')
          else Response 500 (Message ''Failed to refresh budget amounts''),
          s\<lparr>budgets := snd r\<rparr>))"

section \<open>Request validation\<close>

record transaction_body =
  tb_description :: string
  tb_amount :: rat
  tb_category :: string
  tb_date :: jsdate

record budget_body =
  bb_category :: string
  bb_budgetAmount :: rat
  bb_month :: string
  bb_year :: int

text \<open>The bodies are taken after parsing: \<^verbatim>\<open>parseFloat(amount)\<close>, \<^verbatim>\<open>new Date(date)\<close> and
  \<^verbatim>\<open>parseInt(year)\<close> have been applied, so the checks \<^verbatim>\<open>isNumeric\<close>, \<^verbatim>\<open>isISO8601\<close> and
  \<^verbatim>\<open>isInt\<close> have nothing left to reject but the range of the year. Each list holds the
  messages of the failed checks.\<close>

definition validateTransaction :: "transaction_body \<Rightarrow> string list" where
  "validateTransaction r =
     (if tb_description r = [] then [''Description is required''] else []) @
     (if 200 < length (tb_description r) then [''Description must be less than 200 characters'']
      else []) @
     (if tb_amount r \<le> 0 then [''Amount must be greater than 0''] else []) @
     (if tb_category r = [] then [''Category is required''] else [])"

definition validateBudget :: "budget_body \<Rightarrow> string list" where
  "validateBudget r =
     (if bb_category r = [] then [''Category is required''] else []) @
     (if bb_budgetAmount r \<le> 0 then [''Budget amount must be greater than 0''] else []) @
     (if bb_month r \<notin> set months then [''Invalid month''] else []) @
     (if bb_year r < 2020 \<or> 2030 < bb_year r then [''Year must be between 2020 and 2030'']
      else [])"

text \<open>\<^verbatim>\<open>handleValidationErrors\<close> answers 400 with the errors, or lets the handler run.\<close>

definition handleValidationErrors :: "string list \<Rightarrow> (response \<times> 's) \<Rightarrow> 's \<Rightarrow> response \<times> 's" where
  "handleValidationErrors errors next s =
     (if errors \<noteq> [] then (Response 400 (ValidationFailed errors), s) else next)"

section \<open>Expense routes\<close>

text \<open>\<^verbatim>\<open>Budget.findOneAndUpdate(filter, {$inc: {spentAmount: x}})\<close>: the first budget that
  matches the filter has \<open>x\<close> added to its spent amount; update validators are not run.\<close>

fun findOneAndUpdate_inc :: "(budget \<Rightarrow> bool) \<Rightarrow> rat \<Rightarrow> budget list \<Rightarrow> budget list" where
  "findOneAndUpdate_inc P x [] = []"
| "findOneAndUpdate_inc P x (b # bs) =
     (if P b then b\<lparr>b_spentAmount := b_spentAmount b + x\<rparr> # bs
      else b # findOneAndUpdate_inc P x bs)"

definition budget_filter :: "string \<Rightarrow> string \<Rightarrow> string \<Rightarrow> int \<Rightarrow> budget \<Rightarrow> bool" where
  "budget_filter uid cat month year b =
     (b_userId b = ObjectId uid \<and> b_category b = cat \<and> b_month b = month \<and>
      b_year b = year)"

definition expense_filter :: "string \<Rightarrow> string \<Rightarrow> expense \<Rightarrow> bool" where
  "expense_filter pid uid e = (e_id e = pid \<and> e_userId e = ObjectId uid)"

text \<open>Replace, or remove, the first document that matches.\<close>

fun update_first :: "('a \<Rightarrow> bool) \<Rightarrow> ('a \<Rightarrow> 'a) \<Rightarrow> 'a list \<Rightarrow> 'a list" where
  "update_first P f [] = []"
| "update_first P f (x # xs) = (if P x then f x # xs else x # update_first P f xs)"

fun delete_first :: "('a \<Rightarrow> bool) \<Rightarrow> 'a list \<Rightarrow> 'a list" where
  "delete_first P [] = []"
| "delete_first P (x # xs) = (if P x then xs else x # delete_first P xs)"

text \<open>\<^verbatim>\<open>POST /\<close> of the expense routes. \<open>newId\<close> is the identifier the driver gives the
  new document.\<close>

definition post_expense :: "string \<Rightarrow> string \<Rightarrow> transaction_body \<Rightarrow> db \<Rightarrow> response \<times> db" where
  "post_expense uid newId r s =
     handleValidationErrors (validateTransaction r)
       (let expenseAmount = tb_amount r;
            expenseDate = tb_date r;
            e = \<lparr>e_id = newId, e_userId = ObjectId uid, e_description = tb_description r,
                 e_amount = expenseAmount, e_category = tb_category r, e_date = expenseDate\<rparr>;
            expenseMonth = monthLong expenseDate;
            expenseYear = getFullYear expenseDate
        in (Response 201 (ExpenseDoc e),
            s\<lparr>expenses := expenses s @ [e],
              budgets := findOneAndUpdate_inc
                (budget_filter uid (tb_category r) expenseMonth expenseYear) expenseAmount
                (budgets s)\<rparr>)) s"

text \<open>\<^verbatim>\<open>PUT /:id\<close> of the expense routes.\<close>

definition put_expense :: "string \<Rightarrow> string \<Rightarrow> transaction_body \<Rightarrow> db \<Rightarrow> response \<times> db" where
  "put_expense uid pid r s =
     handleValidationErrors (validateTransaction r)
       (let newAmount = tb_amount r;
            newDate = tb_date r
        in case find (expense_filter pid uid) (expenses s) of
             None \<Rightarrow> (Response 404 (Message ''Expense not found''), s)
           | Some oldExpense \<Rightarrow>
               (let e = oldExpense\<lparr>e_description := tb_description r, e_amount := newAmount,
                          e_category := tb_category r, e_date := newDate\<rparr>;
                    es = update_first (expense_filter pid uid) (\<lambda>_. e) (expenses s);
                    bs =
                      (if e_category oldExpense = tb_category r then
                         (let amountDifference = newAmount - e_amount oldExpense;
                              expenseMonth = monthLong newDate;
                              expenseYear = getFullYear newDate
                          in findOneAndUpdate_inc
                               (budget_filter uid (tb_category r) expenseMonth expenseYear)
                               amountDifference (budgets s))
                       else
                         (let oldMonth = monthLong (e_date oldExpense);
                              oldYear = getFullYear (e_date oldExpense);
                              newMonth = monthLong newDate;
                              newYear = getFullYear newDate
                          in findOneAndUpdate_inc
                               (budget_filter uid (tb_category r) newMonth newYear) newAmount
                               (findOneAndUpdate_inc
                                  (budget_filter uid (e_category oldExpense) oldMonth oldYear)
                                  (- e_amount oldExpense) (budgets s))))
                in (Response 200 (ExpenseDoc e), s\<lparr>expenses := es, budgets := bs\<rparr>))) s"


section \<open>Budget routes\<close>

text \<open>The decimal digits of a number, as a template literal \<^verbatim>\<open>${year}\<close> prints it.\<close>

definition digit :: "nat \<Rightarrow> char" where
  "digit n = ''0123456789'' ! n"

function decimal :: "nat \<Rightarrow> string" where
  "decimal n = (if n < 10 then [digit n] else decimal (n div 10) @ [digit (n mod 10)])"
  by pat_completeness auto
termination
  by (relation "measure (\<lambda>n. n)") auto

declare decimal.simps [simp del]

definition template_int :: "int \<Rightarrow> string" where
  "template_int i = (if 0 \<le> i then decimal (nat i) else CHR ''-'' # decimal (nat (- i)))"

definition budget_id_filter :: "string \<Rightarrow> string \<Rightarrow> budget \<Rightarrow> bool" where
  "budget_id_filter pid uid b = (b_id b = pid \<and> b_userId b = ObjectId uid)"

text \<open>\<^verbatim>\<open>POST /\<close> of the budget routes. The category is trimmed in the filter of
  \<^verbatim>\<open>findOne\<close> and in the new document; the message and the \<^verbatim>\<open>$match\<close> of the scan take it
  as the request wrote it. The schema's unique index on (userId, category, month, year)
  cannot be violated by the save here, since the handler has just found no budget with
  that key; a failing validation on save is answered 500.\<close>

definition post_budget :: "string \<Rightarrow> string \<Rightarrow> budget_body \<Rightarrow> db \<Rightarrow> response \<times> db" where
  "post_budget uid newId r s =
     handleValidationErrors (validateBudget r)
       (case find (budget_filter uid (trim (bb_category r)) (bb_month r) (bb_year r))
               (budgets s) of
          Some existingBudget \<Rightarrow>
            (Response 400 (Message (''Budget already exists for '' @ bb_category r @ '' in '' @
               bb_month r @ '' '' @ template_int (bb_year r))), s)
        | None \<Rightarrow>
            (let spentAmount =
                   scan_spent uid (bb_category r) (bb_month r) (bb_year r) (expenses s);
                 budget = \<lparr>b_id = newId, b_userId = ObjectId uid,
                   b_category = trim (bb_category r),
                   b_budgetAmount = bb_budgetAmount r, b_spentAmount = spentAmount,
                   b_month = bb_month r, b_year = bb_year r\<rparr>
             in if budget_valid budget
                then (Response 201 (BudgetDoc budget), s\<lparr>budgets := budgets s @ [budget]\<rparr>)
                else (Response 500 (Message ''Failed to create budget''), s))) s"

text \<open>\<^verbatim>\<open>PUT /:id\<close> of the budget routes. \<^verbatim>\<open>findOneAndUpdate\<close> casts the update, which
  trims the category, and runs the update validators first (\<^verbatim>\<open>runValidators\<close>: of the
  schema's checks the minimum of the budget amount and, for a category of white space
  only, the required category can still fail after the route's validation); it answers
  null when no budget matches, and fails with the duplicate-key error 11000 when another
  budget already has the new key. The scan takes the category as the request wrote it.
  The later \<^verbatim>\<open>save()\<close> validates the document and writes the spent amount.\<close>

definition put_budget :: "string \<Rightarrow> string \<Rightarrow> budget_body \<Rightarrow> db \<Rightarrow> response \<times> db" where
  "put_budget uid pid r s =
     handleValidationErrors (validateBudget r)
       (if bb_budgetAmount r < 1 / 100 \<or> trim (bb_category r) = []
        then (Response 500 (Message ''Failed to update budget''), s)
        else case find (budget_id_filter pid uid) (budgets s) of
          None \<Rightarrow> (Response 404 (Message ''Budget not found''), s)
        | Some old \<Rightarrow>
            if list_ex (\<lambda>b. b_id b \<noteq> b_id old \<and>
                 budget_filter uid (trim (bb_category r)) (bb_month r) (bb_year r) b)
                 (budgets s)
            then (Response 400 (Message ''Budget already exists for this category and period''), s)
            else
              (let budget = old\<lparr>b_category := trim (bb_category r),
                     b_budgetAmount := bb_budgetAmount r, b_month := bb_month r,
                     b_year := bb_year r\<rparr>;
                   bs = update_first (budget_id_filter pid uid) (\<lambda>_. budget) (budgets s);
                   spentAmount =
                     scan_spent uid (bb_category r) (bb_month r) (bb_year r) (expenses s);
                   budget' = budget\<lparr>b_spentAmount := spentAmount\<rparr>
               in if budget_valid budget'
                  then (Response 200 (BudgetDoc budget'),
                        s\<lparr>budgets := update_first (\<lambda>b. b_id b = b_id budget) (\<lambda>_. budget') bs\<rparr>)
                  else (Response 500 (Message ''Failed to update budget''),
                        s\<lparr>budgets := bs\<rparr>))) s"

section \<open>Income routes\<close>

definition income_filter :: "string \<Rightarrow> string \<Rightarrow> income \<Rightarrow> bool" where
  "income_filter pid uid x = (i_id x = pid \<and> i_userId x = ObjectId uid)"

text \<open>The validators of the Income schema, on the values after the cast (description and
  category trimmed). \<^verbatim>\<open>save()\<close> runs them on the new document, and \<^verbatim>\<open>findOneAndUpdate\<close>
  with \<^verbatim>\<open>runValidators\<close> on the update before it looks for the document; a failure throws
  and is answered 500 with nothing written.\<close>

definition income_valid :: "income \<Rightarrow> bool" where
  "income_valid x =
     (i_description x \<noteq> [] \<and> length (i_description x) \<le> 200 \<and> 1 / 100 \<le> i_amount x \<and>
      i_category x \<noteq> [])"

definition post_income :: "string \<Rightarrow> string \<Rightarrow> transaction_body \<Rightarrow> db \<Rightarrow> response \<times> db" where
  "post_income uid newId r s =
     handleValidationErrors (validateTransaction r)
       (let x = \<lparr>i_id = newId, i_userId = ObjectId uid,
                 i_description = trim (tb_description r), i_amount = tb_amount r,
                 i_category = trim (tb_category r), i_date = tb_date r\<rparr>
        in if income_valid x
           then (Response 201 (IncomeDoc x), s\<lparr>incomes := incomes s @ [x]\<rparr>)
           else (Response 500 (Message ''Failed to create income''), s)) s"

definition put_income :: "string \<Rightarrow> string \<Rightarrow> transaction_body \<Rightarrow> db \<Rightarrow> response \<times> db" where
  "put_income uid pid r s =
     handleValidationErrors (validateTransaction r)
       (if trim (tb_description r) = [] \<or> 200 < length (trim (tb_description r)) \<or>
           tb_amount r < 1 / 100 \<or> trim (tb_category r) = []
        then (Response 500 (Message ''Failed to update income''), s)
        else case find (income_filter pid uid) (incomes s) of
          None \<Rightarrow> (Response 404 (Message ''Income not found''), s)
        | Some old \<Rightarrow>
            (let x = old\<lparr>i_description := trim (tb_description r), i_amount := tb_amount r,
                       i_category := trim (tb_category r), i_date := tb_date r\<rparr>
             in (Response 200 (IncomeDoc x),
                 s\<lparr>incomes := update_first (income_filter pid uid) (\<lambda>_. x) (incomes s)\<rparr>))) s"

definition delete_income :: "string \<Rightarrow> string \<Rightarrow> db \<Rightarrow> response \<times> db" where
  "delete_income uid pid s =
     (case find (income_filter pid uid) (incomes s) of
        None \<Rightarrow> (Response 404 (Message ''Income not found''), s)
      | Some x \<Rightarrow>
          (Response 200 (Message ''Income deleted successfully''),
           s\<lparr>incomes := delete_first (income_filter pid uid) (incomes s)\<rparr>))"

section \<open>Aggregation\<close>

definition in_range :: "jsdate \<Rightarrow> jsdate \<Rightarrow> jsdate \<Rightarrow> bool" where
  "in_range startDate endDate dt = (date_le startDate dt \<and> date_le dt endDate)"

text \<open>The monthly series of the dashboard: \<^verbatim>\<open>for (let i = 5; i >= 0; i--)\<close> pushes one row
  per month.\<close>

definition month_income :: "string \<Rightarrow> jsdate \<Rightarrow> jsdate \<Rightarrow> db \<Rightarrow> rat" where
  "month_income uid monthStart monthEnd s =
     total_or_zero (group_total (map i_amount
       (filter (\<lambda>x. i_userId x = ObjectId uid \<and> in_range monthStart monthEnd (i_date x))
         (incomes s))))"

definition month_expenses :: "string \<Rightarrow> jsdate \<Rightarrow> jsdate \<Rightarrow> db \<Rightarrow> rat" where
  "month_expenses uid monthStart monthEnd s =
     total_or_zero (group_total (map e_amount
       (filter (\<lambda>e. e_userId e = ObjectId uid \<and> in_range monthStart monthEnd (e_date e))
         (expenses s))))"

definition monthStart_of :: "jsdate \<Rightarrow> nat \<Rightarrow> jsdate" where
  "monthStart_of now i = Date_new (getFullYear now) (int (getMonth now) - int i) 1 0 0 0"

definition monthEnd_of :: "jsdate \<Rightarrow> nat \<Rightarrow> jsdate" where
  "monthEnd_of now i = Date_new (getFullYear now) (int (getMonth now) - int i + 1) 0 23 59 59"

definition dashboard_row :: "jsdate \<Rightarrow> string \<Rightarrow> db \<Rightarrow> nat \<Rightarrow> month_row" where
  "dashboard_row now uid s i =
     (let monthStart = monthStart_of now i;
          monthEnd = monthEnd_of now i
      in \<lparr>mr_month = monthShort monthStart,
          mr_income = month_income uid monthStart monthEnd s,
          mr_expenses = month_expenses uid monthStart monthEnd s\<rparr>)"

primrec count_down :: "(nat \<Rightarrow> 'a) \<Rightarrow> nat \<Rightarrow> 'a list" where
  "count_down f 0 = [f 0]"
| "count_down f (Suc i) = f (Suc i) # count_down f i"

text \<open>Before its loop the dashboard handler sets up the date range of the period. For the
  period \<^verbatim>\<open>'week'\<close> it does so with \<^verbatim>\<open>new Date(now.setDate(now.getDate() - now.getDay()))\<close>,
  which moves \<^verbatim>\<open>now\<close> itself to the Sunday of the week; the other periods only read
  \<^verbatim>\<open>now\<close>. The loop then counts its months back from \<^verbatim>\<open>now\<close> as it stands.\<close>

definition dashboard_now :: "string \<Rightarrow> jsdate \<Rightarrow> jsdate" where
  "dashboard_now period now =
     (if period = ''week'' then setDate now (int (getDate now) - int (getDay now)) else now)"

definition dashboard_monthlyData :: "string \<Rightarrow> jsdate \<Rightarrow> string \<Rightarrow> db \<Rightarrow> month_row list" where
  "dashboard_monthlyData period now uid s =
     count_down (dashboard_row (dashboard_now period now) uid s) 5"

text \<open>The monthly series of the reports: the label carries the year, and each row its
  balance.\<close>

definition reports_row :: "jsdate \<Rightarrow> string \<Rightarrow> db \<Rightarrow> nat \<Rightarrow> month_row \<times> rat" where
  "reports_row now uid s i =
     (let monthStart = monthStart_of now i;
          monthEnd = monthEnd_of now i;
          income = month_income uid monthStart monthEnd s;
          expenses = month_expenses uid monthStart monthEnd s
      in (\<lparr>mr_month = monthShort monthStart @ '' '' @ template_int (getFullYear monthStart),
           mr_income = income, mr_expenses = expenses\<rparr>, income - expenses))"

definition reports_monthlyData :: "jsdate \<Rightarrow> string \<Rightarrow> db \<Rightarrow> (month_row \<times> rat) list" where
  "reports_monthlyData now uid s = count_down (reports_row now uid s) 5"

text \<open>\<^verbatim>\<open>GET /stats/summary\<close> of the expense routes. The date filter is applied when both
  query parameters are present. The groups by category come in the order of their first
  expense and are sorted by total, largest first.\<close>

fun add_to_group :: "string \<Rightarrow> rat \<Rightarrow> (string \<times> rat \<times> nat) list \<Rightarrow> (string \<times> rat \<times> nat) list" where
  "add_to_group c a [] = [(c, a, 1)]"
| "add_to_group c a ((c', t, n) # gs) =
     (if c' = c then (c', t + a, n + 1) # gs else (c', t, n) # add_to_group c a gs)"

definition group_by_category :: "expense list \<Rightarrow> (string \<times> rat \<times> nat) list" where
  "group_by_category es = foldl (\<lambda>gs e. add_to_group (e_category e) (e_amount e) gs) [] es"

definition stats_match :: "string \<Rightarrow> jsdate option \<Rightarrow> jsdate option \<Rightarrow> expense \<Rightarrow> bool" where
  "stats_match uid startDate endDate e =
     (e_userId e = HexString uid \<and>
      (case (startDate, endDate) of
         (Some a, Some b) \<Rightarrow> in_range a b (e_date e)
       | _ \<Rightarrow> True))"

definition get_stats_summary :: "string \<Rightarrow> jsdate option \<Rightarrow> jsdate option \<Rightarrow> db \<Rightarrow> response" where
  "get_stats_summary uid startDate endDate s =
     (let matched = filter (stats_match uid startDate endDate) (expenses s);
          stats = (if matched = [] then []
                   else [\<lparr>st_totalExpenses = sum_list (map e_amount matched),
                           st_count = length matched,
                           st_averageExpense =
                             sum_list (map e_amount matched) / of_nat (length matched)\<rparr>]);
          categoryStats = sort_key (\<lambda>g. - fst (snd g)) (group_by_category matched)
      in Response 200 (StatsDoc
           (case stats of [] \<Rightarrow> \<lparr>st_totalExpenses = 0, st_count = 0, st_averageExpense = 0\<rparr> | x # _ \<Rightarrow> x)
           categoryStats))"

text \<open>\<^verbatim>\<open>GET /\<close> of the reports routes: the range set-up, the totals of the period and the
  monthly series. (The category breakdown, the daily trend, the transaction list and the
  budget comparison of the response are computed from the same range and are left out.)\<close>

definition get_reports :: "jsdate \<Rightarrow> string \<Rightarrow> jsdate option \<Rightarrow> jsdate option \<Rightarrow> db \<Rightarrow> response" where
  "get_reports now uid startDate endDate s =
     (let start = (case startDate of Some a \<Rightarrow> a
                   | None \<Rightarrow> Date_new (getFullYear now) (int (getMonth now)) 1 0 0 0);
          end0 = (case endDate of Some b \<Rightarrow> b | None \<Rightarrow> now);
          end1 = setHours end0 23 59 59 999;
          inc = filter (\<lambda>x. i_userId x = ObjectId uid \<and> in_range start end1 (i_date x))
                  (incomes s);
          exps = filter (\<lambda>e. e_userId e = ObjectId uid \<and> in_range start end1 (e_date e))
                   (expenses s);
          totalIncome = total_or_zero (group_total (map i_amount inc));
          totalExpenses = total_or_zero (group_total (map e_amount exps))
      in Response 200 (ReportDoc
           \<lparr>period_startDate = start, period_endDate = end1,
            r_totalIncome = totalIncome, r_totalExpenses = totalExpenses,
            r_netBalance = totalIncome - totalExpenses,
            r_incomeCount = length inc, r_expenseCount = length exps,
            r_totalTransactions = length inc + length exps,
            r_monthlyData = reports_monthlyData now uid s\<rparr>))"

section \<open>The specification's spent amount\<close>

text \<open>The spent amount as the specification words it, for comparison with the scan of
  the code: the sum of the amounts of the owner's expenses whose category is the budget's
  and whose date lies in the budget's calendar month.\<close>

definition spec_spent :: "string \<Rightarrow> string \<Rightarrow> string \<Rightarrow> int \<Rightarrow> expense list \<Rightarrow> rat" where
  "spec_spent uid cat month year es =
     sum_list (map e_amount (filter (\<lambda>e. e_userId e = ObjectId uid \<and> e_category e = cat \<and>
       monthLong (e_date e) = month \<and> getFullYear (e_date e) = year) es))"

section \<open>Example states\<close>

text \<open>A state whose cached spent amount has drifted from the ledger.\<close>

definition db_drift :: db where
  "db_drift =
     \<lparr>expenses =
        [\<lparr>e_id = ''e1'', e_userId = ObjectId ''u1'', e_description = ''lunch'', e_amount = 1200,
          e_category = ''Food'',
          e_date = \<lparr>getFullYear = 2024, getMonth = 2, getDate = 10, msOfDay = 0\<rparr>\<rparr>,
         \<lparr>e_id = ''e2'', e_userId = ObjectId ''u1'', e_description = ''snack'', e_amount = 300,
          e_category = ''Food'',
          e_date = \<lparr>getFullYear = 2024, getMonth = 2, getDate = 5, msOfDay = 0\<rparr>\<rparr>,
         \<lparr>e_id = ''e3'', e_userId = ObjectId ''u2'', e_description = ''dinner'', e_amount = 500,
          e_category = ''Food'',
          e_date = \<lparr>getFullYear = 2024, getMonth = 2, getDate = 6, msOfDay = 0\<rparr>\<rparr>,
         \<lparr>e_id = ''e4'', e_userId = ObjectId ''u1'', e_description = ''bus'', e_amount = 80,
          e_category = ''Transport'',
          e_date = \<lparr>getFullYear = 2024, getMonth = 3, getDate = 2, msOfDay = 0\<rparr>\<rparr>],
      incomes = [],
      budgets =
        [\<lparr>b_id = ''b1'', b_userId = ObjectId ''u1'', b_category = ''Food'', b_budgetAmount = 5000,
          b_spentAmount = 9999, b_month = ''March'', b_year = 2024\<rparr>,
         \<lparr>b_id = ''b2'', b_userId = ObjectId ''u2'', b_category = ''Food'', b_budgetAmount = 100,
          b_spentAmount = 7, b_month = ''March'', b_year = 2024\<rparr>]\<rparr>"


text \<open>The calendar month of a date, counted in months: consecutive months have
  consecutive numbers.\<close>

definition month_number :: "jsdate \<Rightarrow> int" where
  "month_number dt = 12 * getFullYear dt + int (getMonth dt)"

text \<open>A consistent state, reached from the empty state through the routes: budgets for
  March and April 2024 are created, then an expense of 100 on 10 March. The spent amounts
  are the true sums. The later request moves the expense to April and raises it to 250,
  keeping its category.\<close>

definition db_empty :: db where
  "db_empty = \<lparr>expenses = [], incomes = [], budgets = []\<rparr>"

definition food_march :: budget_body where
  "food_march =
     \<lparr>bb_category = ''Food'', bb_budgetAmount = 5000, bb_month = ''March'', bb_year = 2024\<rparr>"

definition food_april :: budget_body where
  "food_april =
     \<lparr>bb_category = ''Food'', bb_budgetAmount = 5000, bb_month = ''April'', bb_year = 2024\<rparr>"

definition lunch_march10 :: transaction_body where
  "lunch_march10 =
     \<lparr>tb_description = ''lunch'', tb_amount = 100, tb_category = ''Food'',
      tb_date = \<lparr>getFullYear = 2024, getMonth = 2, getDate = 10, msOfDay = 0\<rparr>\<rparr>"

definition db_move :: db where
  "db_move =
     \<lparr>expenses =
        [\<lparr>e_id = ''e1'', e_userId = ObjectId ''u1'', e_description = ''lunch'', e_amount = 100,
          e_category = ''Food'',
          e_date = \<lparr>getFullYear = 2024, getMonth = 2, getDate = 10, msOfDay = 0\<rparr>\<rparr>],
      incomes = [],
      budgets =
        [\<lparr>b_id = ''b1'', b_userId = ObjectId ''u1'', b_category = ''Food'', b_budgetAmount = 5000,
          b_spentAmount = 100, b_month = ''March'', b_year = 2024\<rparr>,
         \<lparr>b_id = ''b2'', b_userId = ObjectId ''u1'', b_category = ''Food'', b_budgetAmount = 5000,
          b_spentAmount = 0, b_month = ''April'', b_year = 2024\<rparr>]\<rparr>"

definition move_to_april :: transaction_body where
  "move_to_april =
     \<lparr>tb_description = ''lunch'', tb_amount = 250, tb_category = ''Food'',
      tb_date = \<lparr>getFullYear = 2024, getMonth = 3, getDate = 10, msOfDay = 0\<rparr>\<rparr>"

text \<open>A second consistent state reached through the routes: a March budget, then expenses
  of 100 on 10 March and of 60 at noon on 31 March; the budget holds 160.\<close>

definition snack_march31 :: transaction_body where
  "snack_march31 =
     \<lparr>tb_description = ''snack'', tb_amount = 60, tb_category = ''Food'',
      tb_date = \<lparr>getFullYear = 2024, getMonth = 2, getDate = 31, msOfDay = 43200000\<rparr>\<rparr>"

definition db_march :: db where
  "db_march =
     \<lparr>expenses =
        [\<lparr>e_id = ''e1'', e_userId = ObjectId ''u1'', e_description = ''lunch'', e_amount = 100,
          e_category = ''Food'',
          e_date = \<lparr>getFullYear = 2024, getMonth = 2, getDate = 10, msOfDay = 0\<rparr>\<rparr>,
         \<lparr>e_id = ''e2'', e_userId = ObjectId ''u1'', e_description = ''snack'', e_amount = 60,
          e_category = ''Food'',
          e_date = \<lparr>getFullYear = 2024, getMonth = 2, getDate = 31, msOfDay = 43200000\<rparr>\<rparr>],
      incomes = [],
      budgets =
        [\<lparr>b_id = ''b1'', b_userId = ObjectId ''u1'', b_category = ''Food'',
          b_budgetAmount = 5000, b_spentAmount = 160, b_month = ''March'', b_year = 2024\<rparr>]\<rparr>"

text \<open>The same ledger with the owner stored as the string of the session, as an aggregation
  stage would need it.\<close>

definition string_owner :: "expense \<Rightarrow> expense" where
  "string_owner e =
     e\<lparr>e_userId := (case e_userId e of ObjectId u \<Rightarrow> HexString u | HexString u \<Rightarrow> HexString u)\<rparr>"

text \<open>Expenses on the first and on the last instant of March 2024, and the requests that
  create them when a March budget exists already.\<close>

definition db_boundary :: db where
  "db_boundary =
     \<lparr>expenses =
        [\<lparr>e_id = ''e1'', e_userId = ObjectId ''u1'', e_description = ''first instant'', e_amount = 40,
          e_category = ''Food'',
          e_date = \<lparr>getFullYear = 2024, getMonth = 2, getDate = 1, msOfDay = 0\<rparr>\<rparr>,
         \<lparr>e_id = ''e2'', e_userId = ObjectId ''u1'', e_description = ''last instant'', e_amount = 60,
          e_category = ''Food'',
          e_date = \<lparr>getFullYear = 2024, getMonth = 2, getDate = 31, msOfDay = 86399999\<rparr>\<rparr>],
      incomes = [],
      budgets = []\<rparr>"

definition db_empty_budget :: db where
  "db_empty_budget =
     \<lparr>expenses = [], incomes = [],
      budgets =
        [\<lparr>b_id = ''b1'', b_userId = ObjectId ''u1'', b_category = ''Food'', b_budgetAmount = 5000,
          b_spentAmount = 0, b_month = ''March'', b_year = 2024\<rparr>]\<rparr>"

definition first_instant_body :: transaction_body where
  "first_instant_body =
     \<lparr>tb_description = ''first instant'', tb_amount = 40, tb_category = ''Food'',
      tb_date = \<lparr>getFullYear = 2024, getMonth = 2, getDate = 1, msOfDay = 0\<rparr>\<rparr>"

definition last_instant_body :: transaction_body where
  "last_instant_body =
     \<lparr>tb_description = ''last instant'', tb_amount = 60, tb_category = ''Food'',
      tb_date = \<lparr>getFullYear = 2024, getMonth = 2, getDate = 31, msOfDay = 86399999\<rparr>\<rparr>"

text \<open>Wednesday 1 May 2024, 10:00, and a ledger in which the user \<open>u1\<close> has transactions
  on that day only.\<close>

definition now_may1 :: jsdate where
  "now_may1 = \<lparr>getFullYear = 2024, getMonth = 4, getDate = 1, msOfDay = 36000000\<rparr>"

definition db_may :: db where
  "db_may =
     \<lparr>expenses =
        [\<lparr>e_id = ''e1'', e_userId = ObjectId ''u1'', e_description = ''lunch'', e_amount = 1200,
          e_category = ''Food'',
          e_date = \<lparr>getFullYear = 2024, getMonth = 4, getDate = 1, msOfDay = 32400000\<rparr>\<rparr>],
      incomes =
        [\<lparr>i_id = ''i1'', i_userId = ObjectId ''u1'', i_description = ''salary'', i_amount = 3000,
          i_category = ''Salary'',
          i_date = \<lparr>getFullYear = 2024, getMonth = 4, getDate = 1, msOfDay = 0\<rparr>\<rparr>],
      budgets = []\<rparr>"

section \<open>Properties of the model\<close>

subsection \<open>Dates\<close>

lemma daysInMonth_ge: "28 \<le> daysInMonth y m"
  by (simp add: daysInMonth_def)

lemma rollForward_in: "1 \<le> d \<Longrightarrow> d \<le> int (daysInMonth y m) \<Longrightarrow> rollForward y m d = (y, m, nat d)"
  by (subst rollForward.simps) simp

lemma rollBack_pos: "1 \<le> d \<Longrightarrow> rollBack y m d = (y, m, nat d)"
  by (subst rollBack.simps) simp

lemma rollBack_neg:
  "d < 1 \<Longrightarrow> rollBack y m d =
     rollBack (fst (prevMonth (y, m))) (snd (prevMonth (y, m)))
       (d + int (daysInMonth (fst (prevMonth (y, m))) (snd (prevMonth (y, m)))))"
  by (subst rollBack.simps) simp

lemma rollBack_zero: "rollBack y m 0 = (fst (prevMonth (y, m)), snd (prevMonth (y, m)), daysInMonth (fst (prevMonth (y, m))) (snd (prevMonth (y, m))))"
proof -
  have "1 \<le> int (daysInMonth (fst (prevMonth (y, m))) (snd (prevMonth (y, m))))"
    using daysInMonth_ge [of "fst (prevMonth (y, m))" "snd (prevMonth (y, m))"] by simp
  then show ?thesis
    by (subst rollBack.simps) (simp add: rollBack_pos)
qed

lemma prevMonth_norm:
  "prevMonth (y + (mi + 1) div 12, nat ((mi + 1) mod 12)) = (y + mi div 12, nat (mi mod 12))"
proof -
  define q where "q = mi div 12"
  define k where "k = mi mod 12"
  have k: "0 \<le> k" "k < 12" by (simp_all add: k_def)
  have mi: "mi = 12 * q + k" by (simp add: q_def k_def)
  show ?thesis
  proof (cases "k = 11")
    case True
    have e: "mi + 1 = 12 * (q + 1) + 0" using mi True by simp
    have "(mi + 1) div 12 = q + 1"
      by (rule int_div_pos_eq [OF e]) simp_all
    moreover have "(mi + 1) mod 12 = 0"
      by (rule int_mod_pos_eq [OF e]) simp_all
    ultimately show ?thesis
      using True by (simp add: prevMonth_def q_def [symmetric] k_def [symmetric])
  next
    case False
    have e: "mi + 1 = 12 * q + (k + 1)" using mi by simp
    have "(mi + 1) div 12 = q"
      by (rule int_div_pos_eq [OF e]) (use k False in simp_all)
    moreover have "(mi + 1) mod 12 = k + 1"
      by (rule int_mod_pos_eq [OF e]) (use k False in simp_all)
    ultimately show ?thesis
      using k by (simp add: prevMonth_def q_def [symmetric] k_def [symmetric] nat_add_distrib)
  qed
qed

lemma Date_new_first:
  "Date_new y mi 1 0 0 0 =
     \<lparr>getFullYear = y + mi div 12, getMonth = nat (mi mod 12), getDate = 1, msOfDay = 0\<rparr>"
proof -
  have "rollForward (y + mi div 12) (nat (mi mod 12)) 1 = (y + mi div 12, nat (mi mod 12), 1)"
    using rollForward_in [of 1 "y + mi div 12" "nat (mi mod 12)"]
      daysInMonth_ge [of "y + mi div 12" "nat (mi mod 12)"] by simp
  then show ?thesis by (simp add: Date_new_def msPerDay_def)
qed

lemma Date_new_last:
  assumes "((h * 60 + mi') * 60 + s) * 1000 < msPerDay"
  shows "Date_new y (mi + 1) 0 h mi' s =
     \<lparr>getFullYear = y + mi div 12, getMonth = nat (mi mod 12),
      getDate = daysInMonth (y + mi div 12) (nat (mi mod 12)),
      msOfDay = ((h * 60 + mi') * 60 + s) * 1000\<rparr>"
  using assms by (simp add: Date_new_def Let_def rollBack_zero prevMonth_norm)

lemma months_cases:
  assumes "mo \<in> set months"
  shows "mo = ''January'' \<or> mo = ''February'' \<or> mo = ''March'' \<or> mo = ''April'' \<or>
    mo = ''May'' \<or> mo = ''June'' \<or> mo = ''July'' \<or> mo = ''August'' \<or>
    mo = ''September'' \<or> mo = ''October'' \<or> mo = ''November'' \<or> mo = ''December''"
  using assms unfolding months_def by simp

lemma getMonthIndex_range:
  assumes "mo \<in> set months"
  shows "0 \<le> getMonthIndex mo \<and> getMonthIndex mo < 12 \<and> months ! nat (getMonthIndex mo) = mo"
  using months_cases [OF assms]
  by (elim disjE) (simp_all add: getMonthIndex_def months_def)

lemma scan_startDate_eq:
  assumes "mo \<in> set months"
  shows "scan_startDate y mo =
     \<lparr>getFullYear = y, getMonth = nat (getMonthIndex mo), getDate = 1, msOfDay = 0\<rparr>"
  using getMonthIndex_range [OF assms] by (simp add: scan_startDate_def Date_new_first)

lemma scan_endDate_eq:
  assumes "mo \<in> set months"
  shows "scan_endDate y mo =
     \<lparr>getFullYear = y, getMonth = nat (getMonthIndex mo),
      getDate = daysInMonth y (nat (getMonthIndex mo)), msOfDay = 0\<rparr>"
  using getMonthIndex_range [OF assms]
  by (simp add: scan_endDate_def Date_new_last msPerDay_def)

lemma date_le_trans: "date_le a b \<Longrightarrow> date_le b c \<Longrightarrow> date_le a c"
  unfolding date_le_def by (elim disjE conjE) simp_all

lemma in_range_empty: "\<not> date_le a b \<Longrightarrow> \<not> in_range a b dt"
  unfolding in_range_def using date_le_trans by blast

subsection \<open>Queries on lists of documents\<close>

lemma update_first_mem:
  "list_ex P xs \<Longrightarrow> y \<in> set (update_first P (\<lambda>_. y) xs)"
  by (induction xs) auto

lemma find_Some_list_ex: "find P xs = Some x \<Longrightarrow> list_ex P xs"
  by (induction xs) (auto split: if_splits)

lemma find_Some_P: "find P xs = Some x \<Longrightarrow> P x \<and> x \<in> set xs"
  by (induction xs) (auto split: if_splits)



subsection \<open>The scan and the refresh\<close>

text \<open>The range of the scan is the month from its first instant up to the midnight that
  begins its last day; the owner is matched as the string of the session.\<close>

lemma scan_match_iff:
  assumes "mo \<in> set months"
  shows "scan_match uid cat (scan_startDate y mo) (scan_endDate y mo) e \<longleftrightarrow>
     e_userId e = HexString uid \<and> e_category e = cat \<and> getFullYear (e_date e) = y \<and>
     getMonth (e_date e) = nat (getMonthIndex mo) \<and> 1 \<le> getDate (e_date e) \<and>
     (getDate (e_date e) < daysInMonth y (nat (getMonthIndex mo)) \<or>
      getDate (e_date e) = daysInMonth y (nat (getMonthIndex mo)) \<and> msOfDay (e_date e) = 0)"
  unfolding scan_match_def scan_startDate_eq [OF assms] scan_endDate_eq [OF assms] date_le_def
  by (auto)

lemma total_or_zero_group_total: "total_or_zero (group_total xs) = sum_list xs"
  by (simp add: total_or_zero_def group_total_def)

lemma scan_spent_sum:
  "scan_spent uid cat mo y es =
     sum_list (map e_amount (filter (\<lambda>e. e_userId e = HexString uid \<and> e_category e = cat \<and>
       date_le (scan_startDate y mo) (e_date e) \<and> date_le (e_date e) (scan_endDate y mo)) es))"
  unfolding scan_spent_def total_or_zero_group_total scan_match_def ..

lemma scan_spent_nonneg:
  assumes "\<forall>e \<in> set es. 0 \<le> e_amount e"
  shows "0 \<le> scan_spent uid cat mo y es"
  unfolding scan_spent_sum using assms by (intro sum_list_nonneg) auto

lemma refresh_loop_ok:
  "fst (refresh_loop uid es bs) \<Longrightarrow>
     snd (refresh_loop uid es bs) =
       map (\<lambda>b. if b_userId b = ObjectId uid
                then b\<lparr>b_spentAmount := scan_spent uid (b_category b) (b_month b) (b_year b) es\<rparr>
                else b) bs"
  by (induction bs) (auto simp: Let_def split: if_splits)

lemma refresh_loop_completes:
  assumes "\<forall>e \<in> set es. 0 \<le> e_amount e"
    and "\<forall>b \<in> set bs. b_userId b = ObjectId uid \<longrightarrow> budget_valid (b\<lparr>b_spentAmount := 0\<rparr>)"
  shows "fst (refresh_loop uid es bs)"
  using assms(2)
proof (induction bs)
  case Nil
  then show ?case by simp
next
  case (Cons b bs)
  have "0 \<le> scan_spent uid (b_category b) (b_month b) (b_year b) es"
    by (rule scan_spent_nonneg [OF assms(1)])
  with Cons show ?case by (simp add: Let_def budget_valid_def)
qed

lemma refresh_completes:
  assumes "\<forall>b \<in> set (budgets s). b_userId b = ObjectId uid \<longrightarrow> budget_valid (b\<lparr>b_spentAmount := 0\<rparr>)"
    and "\<forall>e \<in> set (expenses s). 0 \<le> e_amount e"
  shows "fst (post_refresh uid s) = Response 200 (Message ''Budget amounts refreshed successfully'')"
  using refresh_loop_completes [OF assms(2) assms(1)] by (simp add: post_refresh_def Let_def)

text \<open>What the refresh and the budget update compute, in every state.\<close>

lemma refresh_rescans:
  assumes "post_refresh uid s = (Response 200 msg, s')"
  shows "expenses s' = expenses s \<and>
    map (\<lambda>b. b\<lparr>b_spentAmount := 0\<rparr>) (budgets s') = map (\<lambda>b. b\<lparr>b_spentAmount := 0\<rparr>) (budgets s) \<and>
    (\<forall>b \<in> set (budgets s'). b_userId b = ObjectId uid \<longrightarrow>
       b_spentAmount b =
         sum_list (map e_amount (filter (\<lambda>e. e_userId e = HexString uid \<and> e_category e = b_category b \<and>
           date_le (scan_startDate (b_year b) (b_month b)) (e_date e) \<and>
           date_le (e_date e) (scan_endDate (b_year b) (b_month b))) (expenses s'))))"
proof -
  from assms have ok: "fst (refresh_loop uid (expenses s) (budgets s))"
    by (auto simp: post_refresh_def Let_def split: if_splits)
  from assms have s': "s' = s\<lparr>budgets := snd (refresh_loop uid (expenses s) (budgets s))\<rparr>"
    by (auto simp: post_refresh_def Let_def)
  note bs = refresh_loop_ok [OF ok]
  have 1: "expenses s' = expenses s" by (simp add: s')
  have 2: "map (\<lambda>b. b\<lparr>b_spentAmount := 0\<rparr>) (budgets s') = map (\<lambda>b. b\<lparr>b_spentAmount := 0\<rparr>) (budgets s)"
    by (simp add: s' bs)
  have 3: "b_spentAmount b =
         sum_list (map e_amount (filter (\<lambda>e. e_userId e = HexString uid \<and> e_category e = b_category b \<and>
           date_le (scan_startDate (b_year b) (b_month b)) (e_date e) \<and>
           date_le (e_date e) (scan_endDate (b_year b) (b_month b))) (expenses s')))"
    if "b \<in> set (budgets s')" "b_userId b = ObjectId uid" for b
  proof -
    from that obtain b0 where "b0 \<in> set (budgets s)" "b_userId b0 = ObjectId uid"
      "b = b0\<lparr>b_spentAmount := scan_spent uid (b_category b0) (b_month b0) (b_year b0) (expenses s)\<rparr>"
      unfolding s' by (auto simp: bs split: if_splits)
    then show ?thesis by (simp add: 1 scan_spent_sum)
  qed
  from 1 2 3 show ?thesis by blast
qed

lemma put_budget_rescans:
  assumes "put_budget uid pid r s = (Response 200 body, s')"
  shows "\<exists>b. body = BudgetDoc b \<and> b \<in> set (budgets s') \<and> b_id b = pid \<and> b_userId b = ObjectId uid \<and>
     b_category b = trim (bb_category r) \<and> b_month b = bb_month r \<and>
     b_year b = bb_year r \<and> b_budgetAmount b = bb_budgetAmount r \<and>
     b_spentAmount b =
       sum_list (map e_amount (filter (\<lambda>e. e_userId e = HexString uid \<and> e_category e = bb_category r \<and>
         date_le (scan_startDate (bb_year r) (bb_month r)) (e_date e) \<and>
         date_le (e_date e) (scan_endDate (bb_year r) (bb_month r))) (expenses s')))"
proof -
  from assms obtain old where old: "find (budget_id_filter pid uid) (budgets s) = Some old"
    by (auto simp: put_budget_def handleValidationErrors_def Let_def
        split: if_splits option.splits)
  define budget where "budget = old\<lparr>b_category := trim (bb_category r),
     b_budgetAmount := bb_budgetAmount r, b_month := bb_month r, b_year := bb_year r\<rparr>"
  define budget' where "budget' = budget\<lparr>b_spentAmount :=
     scan_spent uid (bb_category r) (bb_month r) (bb_year r) (expenses s)\<rparr>"
  define bs where "bs = update_first (budget_id_filter pid uid) (\<lambda>_. budget) (budgets s)"
  from assms old have body: "body = BudgetDoc budget'"
    and s': "s' = s\<lparr>budgets := update_first (\<lambda>b. b_id b = b_id budget) (\<lambda>_. budget') bs\<rparr>"
    by (auto simp: put_budget_def handleValidationErrors_def Let_def budget_def budget'_def
        bs_def split: if_splits)
  from old have oldP: "b_id old = pid" "b_userId old = ObjectId uid"
    using find_Some_P [OF old] by (simp_all add: budget_id_filter_def)
  have "budget \<in> set bs"
    unfolding bs_def by (rule update_first_mem [OF find_Some_list_ex [OF old]])
  then have "list_ex (\<lambda>b. b_id b = b_id budget) bs"
    by (auto simp: list_ex_iff)
  then have "budget' \<in> set (budgets s')"
    unfolding s' using update_first_mem by fastforce
  moreover have "expenses s' = expenses s" by (simp add: s')
  ultimately show ?thesis
    using body oldP by (simp add: budget'_def budget_def scan_spent_sum)
qed

text \<open>No document saved through the routes carries a string as its owner, so on the
  states the routes produce the scan finds nothing.\<close>

lemma scan_spent_no_string_owner:
  assumes "\<forall>e \<in> set es. \<exists>u. e_userId e = ObjectId u"
  shows "scan_spent uid cat mo y es = 0"
proof -
  have "filter (\<lambda>e. e_userId e = HexString uid \<and> e_category e = cat \<and>
       date_le (scan_startDate y mo) (e_date e) \<and> date_le (e_date e) (scan_endDate y mo)) es = []"
    using assms by (auto simp: filter_empty_conv)
  then show ?thesis by (simp add: scan_spent_sum)
qed

subsection \<open>Evaluating the routes\<close>

lemmas scan_eval =
  scan_spent_def scan_match_def scan_startDate_eq scan_endDate_eq getMonthIndex_def
  months_def daysInMonth_def isLeapYear_def date_le_def total_or_zero_def group_total_def
  budget_valid_def

lemmas route_eval =
  put_expense_def post_expense_def handleValidationErrors_def validateTransaction_def
  expense_filter_def budget_filter_def monthLong_def post_refresh_def post_budget_def
  validateBudget_def trim_def is_space_def

lemma template_int_2024: "template_int 2024 = ''2024''"
  by (simp add: template_int_def decimal.simps digit_def)

subsection \<open>Monthly rows\<close>

lemma monthStart_of_eq:
  "monthStart_of now i =
     \<lparr>getFullYear = getFullYear now + (int (getMonth now) - int i) div 12,
      getMonth = nat ((int (getMonth now) - int i) mod 12), getDate = 1, msOfDay = 0\<rparr>"
  by (simp add: monthStart_of_def Date_new_first)

lemma monthEnd_of_eq:
  "monthEnd_of now i =
     \<lparr>getFullYear = getFullYear now + (int (getMonth now) - int i) div 12,
      getMonth = nat ((int (getMonth now) - int i) mod 12),
      getDate = daysInMonth (getFullYear now + (int (getMonth now) - int i) div 12)
        (nat ((int (getMonth now) - int i) mod 12)),
      msOfDay = 86399000\<rparr>"
  by (simp add: monthEnd_of_def Date_new_last msPerDay_def)

lemma month_number_monthStart: "month_number (monthStart_of now i) = month_number now - int i"
  by (simp add: monthStart_of_eq month_number_def)

lemma in_range_month_number:
  assumes "in_range (monthStart_of now i) (monthEnd_of now i) dt"
  shows "month_number dt = month_number now - int i"
proof -
  from assms have "getFullYear dt = getFullYear now + (int (getMonth now) - int i) div 12"
    and "getMonth dt = nat ((int (getMonth now) - int i) mod 12)"
    unfolding in_range_def monthStart_of_eq monthEnd_of_eq date_le_def by auto
  then show ?thesis by (simp add: month_number_def)
qed

lemma month_income_zero:
  assumes "\<forall>x \<in> set (incomes s). i_userId x = ObjectId uid \<longrightarrow> month_number (i_date x) \<noteq> month_number now - int i"
  shows "month_income uid (monthStart_of now i) (monthEnd_of now i) s = 0"
proof -
  have "filter (\<lambda>x. i_userId x = ObjectId uid \<and> in_range (monthStart_of now i) (monthEnd_of now i) (i_date x)) (incomes s) = []"
    using assms in_range_month_number by (auto simp: filter_empty_conv)
  then show ?thesis by (simp add: month_income_def total_or_zero_group_total)
qed

lemma month_expenses_zero:
  assumes "\<forall>e \<in> set (expenses s). e_userId e = ObjectId uid \<longrightarrow> month_number (e_date e) \<noteq> month_number now - int i"
  shows "month_expenses uid (monthStart_of now i) (monthEnd_of now i) s = 0"
proof -
  have "filter (\<lambda>e. e_userId e = ObjectId uid \<and> in_range (monthStart_of now i) (monthEnd_of now i) (e_date e)) (expenses s) = []"
    using assms in_range_month_number by (auto simp: filter_empty_conv)
  then show ?thesis by (simp add: month_expenses_def total_or_zero_group_total)
qed

lemma count_down_5: "count_down f 5 = [f 5, f 4, f 3, f 2, f 1, f 0]"
  by (simp add: eval_nat_numeral)

lemma count_down_nth: "k \<le> n \<Longrightarrow> count_down f n ! k = f (n - k)"
proof (induction n arbitrary: k)
  case 0
  then show ?case by simp
next
  case (Suc n)
  then show ?case by (cases k) simp_all
qed

lemma length_count_down: "length (count_down f n) = Suc n"
  by (induction n) simp_all

lemma dashboard_now_other: "period \<noteq> ''week'' \<Longrightarrow> dashboard_now period now = now"
  by (simp add: dashboard_now_def)

lemma monthly_series_dense:
  "length (dashboard_monthlyData period now uid s) = 6 \<and>
   length (reports_monthlyData now uid s) = 6 \<and>
   (\<forall>k < 6.
      dashboard_monthlyData period now uid s ! k =
        dashboard_row (dashboard_now period now) uid s (5 - k) \<and>
      reports_monthlyData now uid s ! k = reports_row now uid s (5 - k) \<and>
      month_number (monthStart_of ref (5 - k)) = month_number ref - int (5 - k)) \<and>
   (\<forall>i. (\<forall>x \<in> set (incomes s). i_userId x = ObjectId uid \<longrightarrow>
            month_number (i_date x) \<noteq> month_number ref - int i) \<longrightarrow>
        (\<forall>e \<in> set (expenses s). e_userId e = ObjectId uid \<longrightarrow>
            month_number (e_date e) \<noteq> month_number ref - int i) \<longrightarrow>
        mr_income (dashboard_row ref uid s i) = 0 \<and>
        mr_expenses (dashboard_row ref uid s i) = 0 \<and>
        mr_income (fst (reports_row ref uid s i)) = 0 \<and>
        mr_expenses (fst (reports_row ref uid s i)) = 0)"
proof -
  have len: "length (dashboard_monthlyData period now uid s) = 6"
    "length (reports_monthlyData now uid s) = 6"
    by (simp_all add: dashboard_monthlyData_def reports_monthlyData_def length_count_down)
  have nth: "dashboard_monthlyData period now uid s ! k =
        dashboard_row (dashboard_now period now) uid s (5 - k)"
    "reports_monthlyData now uid s ! k = reports_row now uid s (5 - k)" if "k < 6" for k
    using that by (simp_all add: dashboard_monthlyData_def reports_monthlyData_def count_down_nth)
  have zero: "mr_income (dashboard_row ref uid s i) = 0 \<and>
        mr_expenses (dashboard_row ref uid s i) = 0 \<and>
        mr_income (fst (reports_row ref uid s i)) = 0 \<and>
        mr_expenses (fst (reports_row ref uid s i)) = 0"
    if "\<forall>x \<in> set (incomes s). i_userId x = ObjectId uid \<longrightarrow>
            month_number (i_date x) \<noteq> month_number ref - int i"
      and "\<forall>e \<in> set (expenses s). e_userId e = ObjectId uid \<longrightarrow>
            month_number (e_date e) \<noteq> month_number ref - int i" for i
    using month_income_zero [OF that(1)] month_expenses_zero [OF that(2)]
    by (simp add: dashboard_row_def reports_row_def Let_def)
  show ?thesis
    using len nth zero month_number_monthStart by blast
qed

lemmas month_eval =
  dashboard_monthlyData_def reports_monthlyData_def count_down_5 dashboard_row_def
  reports_row_def monthStart_of_eq monthEnd_of_eq month_income_def month_expenses_def
  in_range_def date_le_def total_or_zero_def group_total_def monthShort_def monthsShort_def
  daysInMonth_def isLeapYear_def Let_def

lemma getDay_may1: "getDay now_may1 = 3"
  by (simp add: getDay_def days_from_civil_def now_may1_def)

lemma dashboard_now_week_may1:
  "dashboard_now ''week'' now_may1 =
     \<lparr>getFullYear = 2024, getMonth = 3, getDate = 28, msOfDay = 36000000\<rparr>"
  by (simp add: dashboard_now_def getDay_may1 setDate_def)
    (simp add: now_may1_def rollBack_neg rollBack_pos prevMonth_def daysInMonth_def)

subsection \<open>The example states\<close>

lemma db_move_reached:
  "snd (post_expense ''u1'' ''e1'' lunch_march10
     (snd (post_budget ''u1'' ''b2'' food_april
       (snd (post_budget ''u1'' ''b1'' food_march db_empty))))) = db_move"
  by (simp add: route_eval db_empty_def food_march_def food_april_def lunch_march10_def
      db_move_def Let_def scan_eval)

lemma db_march_reached:
  "snd (post_expense ''u1'' ''e2'' snack_march31
     (snd (post_expense ''u1'' ''e1'' lunch_march10
       (snd (post_budget ''u1'' ''b1'' food_march db_empty))))) = db_march"
  by (simp add: route_eval db_empty_def food_march_def lunch_march10_def snack_march31_def
      db_march_def Let_def scan_eval)

lemma db_move_consistent:
  "map (\<lambda>b. spec_spent ''u1'' (b_category b) (b_month b) (b_year b) (expenses db_move))
     (budgets db_move) = map b_spentAmount (budgets db_move)"
  by (simp add: spec_spent_def db_move_def monthLong_def months_def)

lemma group_by_category_Nil: "group_by_category [] = []"
  by (simp add: group_by_category_def)


section \<open>What a bulk refresh leaves behind\<close>

text \<open>
  Claim C1 says that after a bulk refresh every budget of the owner has a spent amount
  equal to the sum of the owner's matching expenses in the budget's month. The refresh
  does overwrite every budget of the owner with the total of its scan (\<open>refresh_rescans\<close>),
  but the scan is not that sum. Its \<^verbatim>\<open>$match\<close> compares the stored owner with the
  session's string, which no stored owner equals; and its range ends at the midnight that
  begins the last day of the month. In the state \<open>db_march\<close> the owner has spent 160 on
  Food in March 2024 and the budget says so. The refresh answers 200 and sets the budget
  to 0. Were the owners stored as strings, the scan would still miss the expense of
  31 March and give 100.
\<close>

theorem refresh_zeroes_spent:
  "spec_spent ''u1'' ''Food'' ''March'' 2024 (expenses db_march) = 160 \<and>
   map b_spentAmount (budgets db_march) = [160] \<and>
   post_refresh ''u1'' db_march =
     (Response 200 (Message ''Budget amounts refreshed successfully''),
      db_march\<lparr>budgets :=
        [\<lparr>b_id = ''b1'', b_userId = ObjectId ''u1'', b_category = ''Food'',
          b_budgetAmount = 5000, b_spentAmount = 0, b_month = ''March'', b_year = 2024\<rparr>]\<rparr>) \<and>
   scan_spent ''u1'' ''Food'' ''March'' 2024 (map string_owner (expenses db_march)) = 100"
  by (simp add: spec_spent_def route_eval db_march_def string_owner_def Let_def scan_eval)

section \<open>Incremental adjustment against bulk refresh\<close>

text \<open>
  Claim C2 says that, from a consistent state, a bulk refresh after any sequence of expense
  operations changes no spent amount. The state \<open>db_move\<close> is consistent
  (\<open>db_move_consistent\<close>). After the update that moves its expense to April with the new
  amount 250, the budgets of March and April hold 100 and 150, the sums of the ledger
  are 0 and 250, and the refresh sets both to 0. Were the owners stored as strings, the
  scan of the refresh would give 0 and 250, not the 100 and 150 of the incremental
  adjustment either.
\<close>

theorem incremental_differs_from_refresh:
  "map b_spentAmount (budgets db_move) = [100, 0] \<and>
   map b_spentAmount (budgets (snd (put_expense ''u1'' ''e1'' move_to_april db_move))) =
     [100, 150] \<and>
   map (\<lambda>b. spec_spent ''u1'' (b_category b) (b_month b) (b_year b)
          (expenses (snd (put_expense ''u1'' ''e1'' move_to_april db_move))))
     (budgets (snd (put_expense ''u1'' ''e1'' move_to_april db_move))) = [0, 250] \<and>
   map b_spentAmount (budgets (snd (post_refresh ''u1''
      (snd (put_expense ''u1'' ''e1'' move_to_april db_move))))) = [0, 0] \<and>
   map (\<lambda>b. scan_spent ''u1'' (b_category b) (b_month b) (b_year b)
          (map string_owner (expenses (snd (put_expense ''u1'' ''e1'' move_to_april db_move)))))
     (budgets (snd (put_expense ''u1'' ''e1'' move_to_april db_move))) = [0, 250]"
  by (simp add: spec_spent_def route_eval db_move_def move_to_april_def string_owner_def
      Let_def scan_eval)

section \<open>Expense update: a date move within one category\<close>

text \<open>
  Claim C3 says that an update which keeps the category and moves the date to another
  month decrements the old month's budget by the old amount and increments the new
  month's budget by the new amount. The handler's same-category branch adjusts only the
  budget of the new date, by the difference of the amounts. Moving an expense of 100 from
  March to April with the new amount 250 leaves the March budget at 100 (the claim: 0) and
  puts the April budget at 150 (the claim: 250).
\<close>

theorem put_expense_date_move_same_category:
  "put_expense ''u1'' ''e1'' move_to_april db_move =
     (Response 200 (ExpenseDoc
        \<lparr>e_id = ''e1'', e_userId = ObjectId ''u1'', e_description = ''lunch'', e_amount = 250,
         e_category = ''Food'',
         e_date = \<lparr>getFullYear = 2024, getMonth = 3, getDate = 10, msOfDay = 0\<rparr>\<rparr>),
      \<lparr>expenses =
        [\<lparr>e_id = ''e1'', e_userId = ObjectId ''u1'', e_description = ''lunch'', e_amount = 250,
          e_category = ''Food'',
          e_date = \<lparr>getFullYear = 2024, getMonth = 3, getDate = 10, msOfDay = 0\<rparr>\<rparr>],
       incomes = [],
       budgets =
        [\<lparr>b_id = ''b1'', b_userId = ObjectId ''u1'', b_category = ''Food'', b_budgetAmount = 5000,
          b_spentAmount = 100, b_month = ''March'', b_year = 2024\<rparr>,
         \<lparr>b_id = ''b2'', b_userId = ObjectId ''u1'', b_category = ''Food'', b_budgetAmount = 5000,
          b_spentAmount = 150, b_month = ''April'', b_year = 2024\<rparr>]\<rparr>)"
  by (simp add: route_eval db_move_def move_to_april_def Let_def months_def)

section \<open>Deleting an expense decrements its budget, unclamped\<close>



section \<open>The boundaries of a month\<close>

text \<open>
  Claim C5 says that an expense on the first or on the last instant of a month is counted
  in that month's bucket by every path. The incremental adjustment does so: with a March
  budget in place, creating the expense of the first instant (40) and that of the last
  instant, 31 March 23:59:59.999 (60), raises the March budget by 40 and by 60. The scans
  do not. The range of the March scan begins at the first instant but ends at
  \<^verbatim>\<open>new Date(year, monthIndex + 1, 0)\<close>, the midnight that begins 31 March, before the last
  instant: with the owners stored as the scan needs them, it counts 40 for March and
  nothing for April. And the owner is matched as a string, so that seeding a March budget
  over the ledger holding both expenses gives 0, and a refresh after the two incremental
  adjustments resets the budget from 100 to 0.
\<close>

theorem month_boundary_paths_disagree:
  "map b_spentAmount (budgets (snd (post_expense ''u1'' ''e1'' first_instant_body
      db_empty_budget))) = [40] \<and>
   map b_spentAmount (budgets (snd (post_expense ''u1'' ''e2'' last_instant_body
      db_empty_budget))) = [60] \<and>
   date_le (scan_startDate 2024 ''March'') (tb_date first_instant_body) \<and>
   date_le (tb_date first_instant_body) (scan_endDate 2024 ''March'') \<and>
   \<not> date_le (tb_date last_instant_body) (scan_endDate 2024 ''March'') \<and>
   \<not> date_le (scan_startDate 2024 ''April'') (tb_date last_instant_body) \<and>
   map b_spentAmount (budgets (snd (post_budget ''u1'' ''b1'' food_march db_boundary))) = [0] \<and>
   scan_spent ''u1'' ''Food'' ''March'' 2024 (map string_owner (expenses db_boundary)) = 40 \<and>
   scan_spent ''u1'' ''Food'' ''April'' 2024 (map string_owner (expenses db_boundary)) = 0 \<and>
   map b_spentAmount (budgets (snd (post_refresh ''u1''
      (snd (post_expense ''u1'' ''e2'' last_instant_body
        (snd (post_expense ''u1'' ''e1'' first_instant_body db_empty_budget))))))) = [0]"
  by (simp add: route_eval db_boundary_def db_empty_budget_def first_instant_body_def
      last_instant_body_def food_march_def string_owner_def Let_def scan_eval)

section \<open>A date range whose start is after its end\<close>

text \<open>
  Claim C6 as stated: an aggregation request with start after end is rejected. The expense
  statistics for the range from 31 March to 1 March are answered with status 200.
\<close>

theorem reversed_range_counterexample:
  "\<not> date_le \<lparr>getFullYear = 2024, getMonth = 2, getDate = 31, msOfDay = 0\<rparr>
      \<lparr>getFullYear = 2024, getMonth = 2, getDate = 1, msOfDay = 0\<rparr> \<and>
   \<not> 400 \<le> status (get_stats_summary ''u1''
      (Some \<lparr>getFullYear = 2024, getMonth = 2, getDate = 31, msOfDay = 0\<rparr>)
      (Some \<lparr>getFullYear = 2024, getMonth = 2, getDate = 1, msOfDay = 0\<rparr>) db_drift)"
  by (simp add: date_le_def get_stats_summary_def Let_def)

text \<open>
  Claim C6, amended. An aggregation request whose start is after its end is not rejected
  and its range is never swapped: it is answered 200 over the range as given. The expense
  statistics match nothing and return the zeroed summary and no category; the report
  covers the range from the start to the end of the end date's day (23:59:59.999), and its
  totals and counts are zero when the start is after that moment too.
\<close>

theorem reversed_range_answered_unswapped:
  assumes "\<not> date_le startDate endDate"
  shows "get_stats_summary uid (Some startDate) (Some endDate) s =
      Response 200 (StatsDoc \<lparr>st_totalExpenses = 0, st_count = 0, st_averageExpense = 0\<rparr> []) \<and>
    (\<exists>rep. get_reports now uid (Some startDate) (Some endDate) s = Response 200 (ReportDoc rep) \<and>
       period_startDate rep = startDate \<and>
       period_endDate rep = setHours endDate 23 59 59 999 \<and>
       r_incomeCount rep = length (filter (\<lambda>x. i_userId x = ObjectId uid \<and>
         date_le startDate (i_date x) \<and> date_le (i_date x) (setHours endDate 23 59 59 999))
         (incomes s)) \<and>
       r_expenseCount rep = length (filter (\<lambda>e. e_userId e = ObjectId uid \<and>
         date_le startDate (e_date e) \<and> date_le (e_date e) (setHours endDate 23 59 59 999))
         (expenses s)) \<and>
       (\<not> date_le startDate (setHours endDate 23 59 59 999) \<longrightarrow>
          r_totalIncome rep = 0 \<and> r_totalExpenses rep = 0 \<and> r_netBalance rep = 0 \<and>
          r_incomeCount rep = 0 \<and> r_expenseCount rep = 0 \<and> r_totalTransactions rep = 0))"
proof -
  have "filter (stats_match uid (Some startDate) (Some endDate)) (expenses s) = []"
    using in_range_empty [OF assms] by (simp add: stats_match_def filter_empty_conv)
  then have 1: "get_stats_summary uid (Some startDate) (Some endDate) s =
      Response 200 (StatsDoc \<lparr>st_totalExpenses = 0, st_count = 0, st_averageExpense = 0\<rparr> [])"
    by (simp add: get_stats_summary_def group_by_category_Nil)
  have 2: "\<not> date_le startDate (setHours endDate 23 59 59 999) \<Longrightarrow>
      filter (\<lambda>x. i_userId x = ObjectId uid \<and> in_range startDate (setHours endDate 23 59 59 999) (i_date x))
        (incomes s) = [] \<and>
      filter (\<lambda>e. e_userId e = ObjectId uid \<and> in_range startDate (setHours endDate 23 59 59 999) (e_date e))
        (expenses s) = []"
    using in_range_empty by (simp add: filter_empty_conv)
  show ?thesis
    using 1 2 by (simp add: get_reports_def Let_def in_range_def total_or_zero_group_total)
qed

theorem reversed_range_answered_unswapped_witness:
  "\<not> date_le \<lparr>getFullYear = 2024, getMonth = 2, getDate = 31, msOfDay = 0\<rparr>
      \<lparr>getFullYear = 2024, getMonth = 2, getDate = 1, msOfDay = 0\<rparr> \<and>
   get_stats_summary ''u1''
      (Some \<lparr>getFullYear = 2024, getMonth = 2, getDate = 31, msOfDay = 0\<rparr>)
      (Some \<lparr>getFullYear = 2024, getMonth = 2, getDate = 1, msOfDay = 0\<rparr>) db_drift =
     Response 200 (StatsDoc \<lparr>st_totalExpenses = 0, st_count = 0, st_averageExpense = 0\<rparr> [])"
proof -
  have h: "\<not> date_le \<lparr>getFullYear = 2024, getMonth = 2, getDate = 31, msOfDay = 0\<rparr>
      \<lparr>getFullYear = 2024, getMonth = 2, getDate = 1, msOfDay = 0\<rparr>"
    by (simp add: date_le_def)
  from reversed_range_answered_unswapped [OF h, of "''u1''" db_drift] h
  show ?thesis by simp
qed

section \<open>The monthly series\<close>

text \<open>
  Claim C7 says that the monthly series always has six rows, one per month in
  chronological order ending at the current month, with zero rows for months without
  transactions, so that an owner with transactions in the current month only gets five
  zero rows and the row of the current month. Both loops do push six rows, zero rows
  included, counted back from their \<^verbatim>\<open>now\<close> (\<open>monthly_series_dense\<close>). In the dashboard
  handler, however, the period \<^verbatim>\<open>'week'\<close> has moved \<^verbatim>\<open>now\<close> to the Sunday of the week
  before the loop runs. On Wednesday 1 May 2024 that Sunday is 28 April: the series then
  runs from November to April, the current month has no row, and the owner whose
  transactions all lie in May gets six zero rows. With the period \<^verbatim>\<open>'month'\<close> the same
  request gives December to May, the last row holding the income and the expenses of May.
\<close>

theorem dashboard_week_series_ends_early:
  "map (\<lambda>x. month_number (i_date x)) (incomes db_may) = [month_number now_may1] \<and>
   map (\<lambda>e. month_number (e_date e)) (expenses db_may) = [month_number now_may1] \<and>
   dashboard_monthlyData ''week'' now_may1 ''u1'' db_may =
     [\<lparr>mr_month = ''Nov'', mr_income = 0, mr_expenses = 0\<rparr>,
      \<lparr>mr_month = ''Dec'', mr_income = 0, mr_expenses = 0\<rparr>,
      \<lparr>mr_month = ''Jan'', mr_income = 0, mr_expenses = 0\<rparr>,
      \<lparr>mr_month = ''Feb'', mr_income = 0, mr_expenses = 0\<rparr>,
      \<lparr>mr_month = ''Mar'', mr_income = 0, mr_expenses = 0\<rparr>,
      \<lparr>mr_month = ''Apr'', mr_income = 0, mr_expenses = 0\<rparr>] \<and>
   dashboard_monthlyData ''month'' now_may1 ''u1'' db_may =
     [\<lparr>mr_month = ''Dec'', mr_income = 0, mr_expenses = 0\<rparr>,
      \<lparr>mr_month = ''Jan'', mr_income = 0, mr_expenses = 0\<rparr>,
      \<lparr>mr_month = ''Feb'', mr_income = 0, mr_expenses = 0\<rparr>,
      \<lparr>mr_month = ''Mar'', mr_income = 0, mr_expenses = 0\<rparr>,
      \<lparr>mr_month = ''Apr'', mr_income = 0, mr_expenses = 0\<rparr>,
      \<lparr>mr_month = ''May'', mr_income = 3000, mr_expenses = 1200\<rparr>]"
proof -
  have 1: "map (\<lambda>x. month_number (i_date x)) (incomes db_may) = [month_number now_may1]"
    and 2: "map (\<lambda>e. month_number (e_date e)) (expenses db_may) = [month_number now_may1]"
    by (simp_all add: db_may_def now_may1_def month_number_def)
  have 3: "dashboard_monthlyData ''week'' now_may1 ''u1'' db_may =
     [\<lparr>mr_month = ''Nov'', mr_income = 0, mr_expenses = 0\<rparr>,
      \<lparr>mr_month = ''Dec'', mr_income = 0, mr_expenses = 0\<rparr>,
      \<lparr>mr_month = ''Jan'', mr_income = 0, mr_expenses = 0\<rparr>,
      \<lparr>mr_month = ''Feb'', mr_income = 0, mr_expenses = 0\<rparr>,
      \<lparr>mr_month = ''Mar'', mr_income = 0, mr_expenses = 0\<rparr>,
      \<lparr>mr_month = ''Apr'', mr_income = 0, mr_expenses = 0\<rparr>]"
    unfolding dashboard_monthlyData_def dashboard_now_week_may1
    by (simp add: month_eval db_may_def)
  have 4: "dashboard_monthlyData ''month'' now_may1 ''u1'' db_may =
     [\<lparr>mr_month = ''Dec'', mr_income = 0, mr_expenses = 0\<rparr>,
      \<lparr>mr_month = ''Jan'', mr_income = 0, mr_expenses = 0\<rparr>,
      \<lparr>mr_month = ''Feb'', mr_income = 0, mr_expenses = 0\<rparr>,
      \<lparr>mr_month = ''Mar'', mr_income = 0, mr_expenses = 0\<rparr>,
      \<lparr>mr_month = ''Apr'', mr_income = 0, mr_expenses = 0\<rparr>,
      \<lparr>mr_month = ''May'', mr_income = 3000, mr_expenses = 1200\<rparr>]"
    unfolding dashboard_monthlyData_def
    by (simp add: dashboard_now_def month_eval db_may_def now_may1_def)
  from 1 2 3 4 show ?thesis by blast
qed

section \<open>A duplicate budget is rejected\<close>

text \<open>
  Claim C8 as stated: creating a second budget for the same owner, category, month and
  year is always rejected with a conflict error. The validation of the route runs before
  the handler: a request for the key of an existing budget whose amount is 0 is rejected
  as a validation failure, with the list of errors, and not with the conflict message.
\<close>

theorem duplicate_invalid_amount_counterexample:
  "find (budget_filter ''u1'' (trim ''Food'') ''March'' 2024) (budgets db_drift) =
     Some \<lparr>b_id = ''b1'', b_userId = ObjectId ''u1'', b_category = ''Food'',
           b_budgetAmount = 5000, b_spentAmount = 9999, b_month = ''March'', b_year = 2024\<rparr> \<and>
   post_budget ''u1'' ''b9''
     \<lparr>bb_category = ''Food'', bb_budgetAmount = 0, bb_month = ''March'', bb_year = 2024\<rparr>
     db_drift =
   (Response 400 (ValidationFailed [''Budget amount must be greater than 0'']), db_drift) \<and>
   fst (post_budget ''u1'' ''b9''
     \<lparr>bb_category = ''Food'', bb_budgetAmount = 0, bb_month = ''March'', bb_year = 2024\<rparr>
     db_drift) \<noteq>
   Response 400 (Message ''Budget already exists for Food in March 2024'')"
  by (simp add: post_budget_def handleValidationErrors_def validateBudget_def months_def
      budget_filter_def trim_def is_space_def db_drift_def)

text \<open>
  Claim C8, amended. Creating a budget for an owner, category (compared after trimming),
  month and year that a budget already has is always rejected with status 400 and leaves
  the existing budget and all other state unchanged. When the request passes the
  validation of the route, the rejection is the conflict error: the message names the
  category and the period and there is no list of errors. When it does not, the
  validation rejects it first, with the message \<^verbatim>\<open>Validation failed\<close> and the list of
  errors. Both kinds carry the status 400; a caller tells them apart by the body, through
  the text of the message and the presence of the list of errors.
\<close>

theorem post_budget_duplicate_rejected:
  assumes "b \<in> set (budgets s)" and "b_userId b = ObjectId uid"
    and "b_category b = trim (bb_category r)"
    and "b_month b = bb_month r" and "b_year b = bb_year r"
  shows "snd (post_budget uid newId r s) = s \<and>
     status (fst (post_budget uid newId r s)) = 400 \<and>
     (validateBudget r = [] \<longrightarrow>
        fst (post_budget uid newId r s) =
          Response 400 (Message (''Budget already exists for '' @ bb_category r @ '' in '' @
            bb_month r @ '' '' @ template_int (bb_year r))) \<and>
        body_errors (payload (fst (post_budget uid newId r s))) = None \<and>
        body_message (payload (fst (post_budget uid newId r s))) \<noteq> Some ''Validation failed'') \<and>
     (validateBudget r \<noteq> [] \<longrightarrow>
        fst (post_budget uid newId r s) = Response 400 (ValidationFailed (validateBudget r)) \<and>
        body_errors (payload (fst (post_budget uid newId r s))) = Some (validateBudget r) \<and>
        body_message (payload (fst (post_budget uid newId r s))) = Some ''Validation failed'')"
proof -
  from assms
  have "list_ex (budget_filter uid (trim (bb_category r)) (bb_month r) (bb_year r)) (budgets s)"
    by (auto simp: list_ex_iff budget_filter_def)
  then obtain x where
    "find (budget_filter uid (trim (bb_category r)) (bb_month r) (bb_year r)) (budgets s) = Some x"
    by (metis find_None_iff list_ex_iff not_Some_eq)
  then show ?thesis
    by (simp add: post_budget_def handleValidationErrors_def body_errors_def body_message_def)
qed

theorem post_budget_duplicate_rejected_witness:
  "post_budget ''u1'' ''b9''
     \<lparr>bb_category = '' Food '', bb_budgetAmount = 250, bb_month = ''March'', bb_year = 2024\<rparr>
     db_drift =
   (Response 400 (Message ''Budget already exists for  Food  in March 2024''), db_drift)"
proof -
  let ?b = "\<lparr>b_id = ''b1'', b_userId = ObjectId ''u1'', b_category = ''Food'',
          b_budgetAmount = 5000, b_spentAmount = 9999, b_month = ''March'', b_year = 2024\<rparr>"
  let ?r = "\<lparr>bb_category = '' Food '', bb_budgetAmount = 250, bb_month = ''March'',
          bb_year = 2024\<rparr>"
  have 1: "?b \<in> set (budgets db_drift)" by (simp add: db_drift_def)
  have 2: "b_category ?b = trim (bb_category ?r)" by (simp add: trim_def is_space_def)
  from post_budget_duplicate_rejected [OF 1 _ 2, of "''u1''" "''b9''"]
  have "snd (post_budget ''u1'' ''b9'' ?r db_drift) = db_drift \<and>
     (validateBudget ?r = [] \<longrightarrow>
        fst (post_budget ''u1'' ''b9'' ?r db_drift) =
          Response 400 (Message (''Budget already exists for '' @ bb_category ?r @ '' in '' @
            bb_month ?r @ '' '' @ template_int (bb_year ?r))))"
    by simp
  moreover have "validateBudget ?r = []" by (simp add: validateBudget_def months_def)
  ultimately show ?thesis
    by (simp add: template_int_2024 prod_eq_iff)
qed

section \<open>Income routes leave the budgets alone\<close>

text \<open>
  Claim C9. Creating, updating and deleting an income never changes the budget collection
  (nor the expenses): all budgets, with all their fields, are the same afterwards.
\<close>

theorem income_routes_keep_budgets:
  "budgets (snd (post_income uid newId r s)) = budgets s \<and>
   budgets (snd (put_income uid pid r s)) = budgets s \<and>
   budgets (snd (delete_income uid pid s)) = budgets s \<and>
   expenses (snd (post_income uid newId r s)) = expenses s \<and>
   expenses (snd (put_income uid pid r s)) = expenses s \<and>
   expenses (snd (delete_income uid pid s)) = expenses s"
  by (simp add: post_income_def put_income_def delete_income_def handleValidationErrors_def
      Let_def split: option.split)

section \<open>A budget update\<close>

text \<open>
  Claim C10 says that a successful budget update leaves the budget with the sum of the
  owner's expenses of the new category within the new month. The update does discard the
  cached amount and takes the total of the scan for the new category, month and year
  (\<open>put_budget_rescans\<close>), but the scan is the one of the refresh: in the state \<open>db_march\<close>,
  where the owner has spent 160 on Food in March 2024, raising the amount of the March
  budget to 6000 is answered 200 with a spent amount of 0.
\<close>

theorem put_budget_zeroes_spent:
  "spec_spent ''u1'' ''Food'' ''March'' 2024 (expenses db_march) = 160 \<and>
   put_budget ''u1'' ''b1''
     \<lparr>bb_category = ''Food'', bb_budgetAmount = 6000, bb_month = ''March'', bb_year = 2024\<rparr>
     db_march =
   (Response 200 (BudgetDoc
      \<lparr>b_id = ''b1'', b_userId = ObjectId ''u1'', b_category = ''Food'', b_budgetAmount = 6000,
       b_spentAmount = 0, b_month = ''March'', b_year = 2024\<rparr>),
    db_march\<lparr>budgets :=
      [\<lparr>b_id = ''b1'', b_userId = ObjectId ''u1'', b_category = ''Food'',
        b_budgetAmount = 6000, b_spentAmount = 0, b_month = ''March'', b_year = 2024\<rparr>]\<rparr>)"
  by (simp add: spec_spent_def put_budget_def budget_id_filter_def route_eval db_march_def
      Let_def scan_eval)

end
